theory Spec2Isabelle
  imports Main
begin

section \<open>Executors of the functions release: a shallow embedding of executor.ts\<close>

text \<open>
  The source is \<^verbatim>\<open>src/deploy/functions/release/executor.ts\<close>: the error classifier
  \<^verbatim>\<open>parseErrorCode\<close>, the shared \<^verbatim>\<open>handler\<close>, and the three executors
  \<^verbatim>\<open>QueueExecutor\<close>, \<^verbatim>\<open>RateLimitedExecutor\<close> and \<^verbatim>\<open>InlineExecutor\<close>.
  Time is abstracted: a promise is represented by the state it settles in, and an
  \<^verbatim>\<open>await\<close> by a case distinction on that state. What is kept is the order of the
  effects on one Operation object, the number of calls of its \<^verbatim>\<open>func\<close>, and the
  difference between a call that throws and a call that returns a rejected promise.
\<close>

subsection \<open>JavaScript values read by the classifier\<close>

text \<open>
  The fields probed by \<^verbatim>\<open>parseErrorCode\<close> are untyped (\<^verbatim>\<open>err: any\<close>). A field holds
  a primitive value; a field that is missing reads as \<^verbatim>\<open>undefined\<close>. Numbers are the
  integers (HTTP status codes), so \<^verbatim>\<open>NaN\<close> and fractions are left out.
\<close>

datatype jsval = JUndefined | JNull | JNum int | JStr string | JBool bool

text \<open>JavaScript's truthiness: \<^verbatim>\<open>undefined\<close>, \<^verbatim>\<open>null\<close>, \<^verbatim>\<open>0\<close>, \<^verbatim>\<open>""\<close> and \<^verbatim>\<open>false\<close> are falsy.\<close>

fun truthy :: "jsval \<Rightarrow> bool" where
  "truthy JUndefined = False"
| "truthy JNull = False"
| "truthy (JNum n) = (n \<noteq> 0)"
| "truthy (JStr s) = (s \<noteq> [])"
| "truthy (JBool b) = b"

text \<open>The operator \<^verbatim>\<open>a || b\<close>: the left operand when it is truthy, else the right one.\<close>

definition js_or :: "jsval \<Rightarrow> jsval \<Rightarrow> jsval" where
  "js_or a b = (if truthy a then a else b)"

subsection \<open>Failures\<close>

text \<open>
  A failure is an object (an \<^verbatim>\<open>Error\<close>, possibly a FirebaseError wrapping another one)
  with the fields the classifier reads: \<^verbatim>\<open>status\<close>, \<^verbatim>\<open>code\<close>,
  \<^verbatim>\<open>context.response.statusCode\<close> and \<^verbatim>\<open>original\<close>, itself a failure. An optional
  object is \<open>None\<close> when it is \<^verbatim>\<open>undefined\<close> or \<^verbatim>\<open>null\<close>, which is what \<^verbatim>\<open>?.\<close>
  tests. The field \<^verbatim>\<open>context\<close> is written \<open>context'\<close>. Reading a field has no effect
  and does not throw.

  The module is strict mode code, so the assignment \<^verbatim>\<open>err.code = code\<close> throws a TypeError
  when the property cannot be written: \<^verbatim>\<open>code\<close> is read-only or an accessor without a
  setter (the \<^verbatim>\<open>code\<close> of a DOMException), or the object is frozen. \<open>code_writable\<close> says
  that the assignment succeeds and sets the field; it is not a field of the object. An
  accessor whose setter does something else is left out.
\<close>

datatype response = Response (statusCode: jsval)

datatype ctx = Context (response: "response option")

datatype failure =
  Failure (message: string) (status: jsval) (code: jsval)
    (context': "ctx option") (original: "failure option") (code_writable: bool)

text \<open>The object after an assignment \<^verbatim>\<open>err.code = code\<close> that succeeds.\<close>

definition set_code :: "jsval \<Rightarrow> failure \<Rightarrow> failure" where
  "set_code c err =
     Failure (message err) (status err) c (context' err) (original err) (code_writable err)"

text \<open>
  What a \<^verbatim>\<open>func\<close> can throw or reject with (\<^verbatim>\<open>err: any\<close>): an object, or a primitive value
  such as in \<^verbatim>\<open>throw undefined\<close> and \<^verbatim>\<open>throw "busy"\<close>.
\<close>

datatype raised = Object failure | Primitive jsval

text \<open>
  What an executor can reject with: a value raised by the caller's \<^verbatim>\<open>func\<close> (\<open>Raw\<close> for an
  object, \<open>RawPrimitive\<close> for a primitive), a TypeError raised by the JavaScript runtime, or
  a \<^verbatim>\<open>RetriesExhaustedError(name, retries, cause)\<close>. The class is imported from
  \<^verbatim>\<open>throttler/errors/retries-exhausted-error\<close>, which is not among the sources; the
  spec has it carry the label of the executor, the configured ceiling and the last
  underlying failure as its cause, and these are the arguments of the constructor.
\<close>

datatype thrown =
  Raw failure | RawPrimitive jsval | TypeError | RetriesExhaustedError string int thrown

text \<open>The statement \<^verbatim>\<open>throw err\<close> for a value raised by \<^verbatim>\<open>func\<close>.\<close>

definition rethrow :: "raised \<Rightarrow> thrown" where
  "rethrow v = (case v of Object err \<Rightarrow> Raw err | Primitive p \<Rightarrow> RawPrimitive p)"

subsection \<open>Promises and calls\<close>

text \<open>
  A promise is represented by its settled state. A call completes by returning a value
  or by throwing. A \<^verbatim>\<open>func: () => Promise<T>\<close> is a closure with state of its own: it is
  given as the function from the number of earlier invocations to how the next
  invocation completes.
\<close>

datatype ('e, 'a) promise = Fulfilled 'a | Rejected 'e

datatype ('e, 'a) completion = Returns 'a | Throws 'e

type_synonym 'a func = "nat \<Rightarrow> (raised, (raised, 'a) promise) completion"

subsection \<open>Operation records and the heap\<close>

text \<open>
  \<^verbatim>\<open>interface Operation { func; retryCodes: number[]; result?: any; error?: any }\<close> and
  \<^verbatim>\<open>interface RateLimitedOperation extends Operation { retryCount: number }\<close>.
  An optional field that was never assigned is \<open>None\<close>. Only an object is ever stored in
  \<^verbatim>\<open>error\<close>: the assignment \<^verbatim>\<open>err.code = code\<close> before it throws for a primitive.
\<close>

record 'a Operation =
  func :: "'a func"
  retryCodes :: "int list"
  result :: "'a option"
  error :: "failure option"

record 'a RateLimitedOperation = "'a Operation" +
  retryCount :: nat

text \<open>
  An Operation is an object shared by reference between \<^verbatim>\<open>run\<close>, the task closure and
  the handler. The heap is the list of the Operation objects allocated so far; an
  address is an index into it. Each cell pairs the record with the number of times its
  \<^verbatim>\<open>func\<close> has been invoked (an observation, not a field of the source).
\<close>

type_synonym ('a, 'z) cell = "('a, 'z) Operation_scheme \<times> nat"

type_synonym ('a, 'z) heap = "('a, 'z) cell list"

type_synonym 'a rl_heap = "('a, \<lparr>retryCount :: nat\<rparr>) heap"

text \<open>\<^verbatim>\<open>interface RunOptions { retryCodes?: number[] }\<close>; the field is written \<open>retryCodes'\<close>.\<close>

datatype RunOptions = RunOptions (retryCodes': "int list option")

subsection \<open>The classifier\<close>

definition DEFAULT_RETRY_CODES :: "int list" where
  "DEFAULT_RETRY_CODES = [429, 409, 503]"

text \<open>The chain \<^verbatim>\<open>x?.response?.statusCode\<close> for \<^verbatim>\<open>x = err.context\<close>.\<close>

definition response_statusCode :: "ctx option \<Rightarrow> jsval" where
  "response_statusCode c =
     (case c of
        None \<Rightarrow> JUndefined
      | Some c' \<Rightarrow> (case response c' of None \<Rightarrow> JUndefined | Some r \<Rightarrow> statusCode r))"

text \<open>
  \<^verbatim>\<open>err.status || err.code || err.context?.response?.statusCode || err.original?.code ||
  err.original?.context?.response?.statusCode\<close>; the operator associates to the left.
\<close>

definition parseErrorCode :: "failure \<Rightarrow> jsval" where
  "parseErrorCode err =
     js_or (js_or (js_or (js_or
       (status err)
       (code err))
       (response_statusCode (context' err)))
       (case original err of None \<Rightarrow> JUndefined | Some orig \<Rightarrow> code orig))
       (case original err of
          None \<Rightarrow> JUndefined
        | Some orig \<Rightarrow> response_statusCode (context' orig))"

text \<open>
  \<^verbatim>\<open>retryCodes.includes(code)\<close> on a \<^verbatim>\<open>number[]\<close>: only a number can be equal to an
  element of the array.
\<close>

definition array_includes :: "int list \<Rightarrow> jsval \<Rightarrow> bool" where
  "array_includes xs v = (case v of JNum n \<Rightarrow> n \<in> set xs | _ \<Rightarrow> False)"

subsection \<open>The shared handler\<close>

text \<open>
  A call \<^verbatim>\<open>parseErrorCode(err)\<close> for any raised value. Reading \<^verbatim>\<open>err.status\<close> throws a
  TypeError when \<^verbatim>\<open>err\<close> is \<^verbatim>\<open>undefined\<close> or \<^verbatim>\<open>null\<close>; on any other primitive each of the
  five locations reads as \<^verbatim>\<open>undefined\<close>.
\<close>

definition call_parseErrorCode :: "raised \<Rightarrow> (thrown, jsval) completion" where
  "call_parseErrorCode v =
     (case v of
        Object err \<Rightarrow> Returns (parseErrorCode err)
      | Primitive JUndefined \<Rightarrow> Throws TypeError
      | Primitive JNull \<Rightarrow> Throws TypeError
      | Primitive _ \<Rightarrow> Returns JUndefined)"

text \<open>
  The statement \<^verbatim>\<open>err.code = code\<close> in strict mode: it throws a TypeError on a primitive
  and on an object whose \<^verbatim>\<open>code\<close> cannot be written.
\<close>

definition assign_code :: "jsval \<Rightarrow> raised \<Rightarrow> (thrown, failure) completion" where
  "assign_code c v =
     (case v of
        Object err \<Rightarrow> if code_writable err then Returns (set_code c err) else Throws TypeError
      | Primitive p \<Rightarrow> Throws TypeError)"

text \<open>
  The \<^verbatim>\<open>catch\<close> block of \<^verbatim>\<open>handler\<close>: \<^verbatim>\<open>const code = parseErrorCode(err)\<close>; a value whose
  code is in \<^verbatim>\<open>op.retryCodes\<close> is thrown again as it is; otherwise \<^verbatim>\<open>err.code = code;
  op.error = err\<close>. What the block itself throws rejects the promise of the handler.
  The constant \<^verbatim>\<open>code\<close> is written \<open>code'\<close>.
\<close>

definition handler_catch ::
  "nat \<Rightarrow> ('a, 'z) heap \<Rightarrow> raised \<Rightarrow> (thrown, unit) promise \<times> ('a, 'z) heap" where
  "handler_catch a h err =
     (case h ! a of (op, n) \<Rightarrow>
        (case call_parseErrorCode err of
           Throws t \<Rightarrow> (Rejected t, h)
         | Returns code' \<Rightarrow>
             if array_includes (retryCodes op) code' then (Rejected (rethrow err), h)
             else (case assign_code code' err of
                     Throws t \<Rightarrow> (Rejected t, h)
                   | Returns err' \<Rightarrow> (Fulfilled (), h[a := (op\<lparr>error := Some err'\<rparr>, n)]))))"

text \<open>
  The body of \<^verbatim>\<open>async function handler(op)\<close>, for the Operation at address \<open>a\<close>:
  \<^verbatim>\<open>op.result = await op.func()\<close> inside \<^verbatim>\<open>try\<close>, so that a throwing call and a rejected
  promise both reach the \<^verbatim>\<open>catch\<close> block. The result is the state in which the promise
  of the call settles, and the heap after it.
\<close>

definition handler ::
  "nat \<Rightarrow> ('a, 'z) heap \<Rightarrow> (thrown, unit) promise \<times> ('a, 'z) heap" where
  "handler a h =
     (case h ! a of (op, n) \<Rightarrow>
        (case func op n of
           Returns (Fulfilled v) \<Rightarrow> (Fulfilled (), h[a := (op\<lparr>result := Some v\<rparr>, Suc n)])
         | Returns (Rejected err) \<Rightarrow> handler_catch a (h[a := (op, Suc n)]) err
         | Throws err \<Rightarrow> handler_catch a (h[a := (op, Suc n)]) err))"

text \<open>
  A call \<^verbatim>\<open>handler(op)\<close>, seen by its caller. The function is declared \<^verbatim>\<open>async\<close>: the
  call returns a promise and never throws, whatever its body raises.
\<close>

definition call_handler ::
  "nat \<Rightarrow> ('a, 'z) heap \<Rightarrow> (thrown, (thrown, unit) promise) completion \<times> ('a, 'z) heap" where
  "call_handler a h = (case handler a h of (p, h') \<Rightarrow> (Returns p, h'))"

text \<open>\<^verbatim>\<open>opts?.retryCodes || DEFAULT_RETRY_CODES\<close>: an array is truthy, also the empty one.\<close>

definition effective_retryCodes :: "RunOptions option \<Rightarrow> int list" where
  "effective_retryCodes opts =
     (case opts of
        None \<Rightarrow> DEFAULT_RETRY_CODES
      | Some ro \<Rightarrow> (case retryCodes' ro of None \<Rightarrow> DEFAULT_RETRY_CODES | Some cs \<Rightarrow> cs))"

subsection \<open>The throttled queue executor\<close>

text \<open>
  Modelled from the spec: the options of the \<^verbatim>\<open>Queue\<close> of \<^verbatim>\<open>throttler/queue\<close>, whose code
  is not among the sources. The spec's interface of the queue: \<^verbatim>\<open>enqueue(item)\<close> resolves
  once the item's handler has completed without raising, internally retrying on raise
  up to its own configured attempt ceiling. The ceiling is given as the number of
  retries after the first attempt. What the queue rejects with once the ceiling is
  reached is left open by the spec: it is the function \<open>queue_giveUp\<close>, applied to the last
  failure. Concurrency and backoff only delay the attempts and are left out.
\<close>

record Queue =
  queue_retries :: nat
  queue_giveUp :: "thrown \<Rightarrow> thrown"

text \<open>
  Modelled from the spec: the attempts of the queue on the item at address \<open>a\<close>, with \<open>k\<close>
  retries left and the handler \<open>hdl\<close>. An attempt that completes without raising resolves
  the promise of the queue; an attempt that raises is followed by the next one, and by
  the rejection when no retry is left.
\<close>

fun Queue_attempts ::
  "nat \<Rightarrow> (thrown \<Rightarrow> thrown) \<Rightarrow> (nat \<Rightarrow> 'h \<Rightarrow> (thrown, unit) promise \<times> 'h) \<Rightarrow>
     nat \<Rightarrow> 'h \<Rightarrow> (thrown, unit) promise \<times> 'h" where
  "Queue_attempts 0 giveUp hdl a h =
     (case hdl a h of
        (Fulfilled u, h') \<Rightarrow> (Fulfilled u, h')
      | (Rejected e, h') \<Rightarrow> (Rejected (giveUp e), h'))"
| "Queue_attempts (Suc k) giveUp hdl a h =
     (case hdl a h of
        (Fulfilled u, h') \<Rightarrow> (Fulfilled u, h')
      | (Rejected e, h') \<Rightarrow> Queue_attempts k giveUp hdl a h')"

text \<open>
  Modelled from the spec: \<^verbatim>\<open>this.queue.run(op)\<close> of the queue that the constructor of
  \<^verbatim>\<open>QueueExecutor\<close> builds with \<^verbatim>\<open>new Queue({ ...options, handler })\<close>.
\<close>

definition Queue_run ::
  "Queue \<Rightarrow> nat \<Rightarrow> ('a, 'z) heap \<Rightarrow> (thrown, unit) promise \<times> ('a, 'z) heap" where
  "Queue_run q a h = Queue_attempts (queue_retries q) (queue_giveUp q) handler a h"

text \<open>
  \<^verbatim>\<open>QueueExecutor.run\<close>: a new Operation is allocated, the queue runs it, and a rejection
  of \<^verbatim>\<open>await this.queue.run(op)\<close> rejects \<^verbatim>\<open>run\<close>. The value resolved with is
  \<^verbatim>\<open>op.result\<close>, \<open>None\<close> when the field is \<^verbatim>\<open>undefined\<close>.
\<close>

definition QueueExecutor_run ::
  "Queue \<Rightarrow> 'a func \<Rightarrow> RunOptions option \<Rightarrow> ('a, unit) heap \<Rightarrow>
     (thrown, 'a option) promise \<times> ('a, unit) heap" where
  "QueueExecutor_run q f opts h =
     (let retryCodes = effective_retryCodes opts;
          op = \<lparr>func = f, retryCodes = retryCodes, result = None, error = None\<rparr>;
          a = length h
      in case Queue_run q a (h @ [(op, 0)]) of
           (Rejected t, h') \<Rightarrow> (Rejected t, h')
         | (Fulfilled u, h') \<Rightarrow>
             (case error (fst (h' ! a)) of
                Some e \<Rightarrow> (Rejected (Raw e), h')
              | None \<Rightarrow> (Fulfilled (result (fst (h' ! a))), h')))"

subsection \<open>The rate limited executor\<close>

text \<open>
  Modelled from the spec: \<^verbatim>\<open>PQueue.add(task)\<close> of the library p-queue, which is not among
  the sources. The spec's interface: \<^verbatim>\<open>add(task)\<close> runs the task once concurrency permits
  and does not retry on raise; raising fails that call of \<^verbatim>\<open>add\<close>. The promise of \<^verbatim>\<open>add\<close>
  settles as the promise that the task returns, and a task that throws rejects it. The
  argument is the completed call of the task.
\<close>

fun PQueue_add ::
  "(thrown, (thrown, 'r) promise) completion \<times> 'h \<Rightarrow> (thrown, 'r) promise \<times> 'h" where
  "PQueue_add (Returns p, h) = (p, h)"
| "PQueue_add (Throws e, h) = (Rejected e, h)"

text \<open>
  The closure \<^verbatim>\<open>task\<close> of \<^verbatim>\<open>RateLimitedExecutor.run\<close>, for the Operation at address \<open>a\<close>:
  \<^verbatim>\<open>try { return handler(op); } catch (err) { ... }\<close>. The \<^verbatim>\<open>try\<close> block returns the
  promise of the call without awaiting it, so the \<^verbatim>\<open>catch\<close> block runs only when the
  call itself throws. In the \<^verbatim>\<open>catch\<close> block, \<^verbatim>\<open>op.retryCount > this.retries\<close> throws the
  RetriesExhaustedError; otherwise \<^verbatim>\<open>op.retryCount++\<close> and the task is added again.
\<close>

function task ::
  "int \<Rightarrow> nat \<Rightarrow> 'a rl_heap \<Rightarrow> (thrown, (thrown, unit) promise) completion \<times> 'a rl_heap" where
  "task retries a h =
     (case call_handler a h of
        (Returns p, h') \<Rightarrow> (Returns p, h')
      | (Throws err, h') \<Rightarrow>
          (case h' ! a of (op, n) \<Rightarrow>
             if int (retryCount op) > retries
             then (Throws (RetriesExhaustedError ''rateLimitedExecutor'' retries err), h')
             else (case PQueue_add
                          (task retries a (h'[a := (op\<lparr>retryCount := retryCount op + 1\<rparr>, n)])) of
                     (p, h'') \<Rightarrow> (Returns p, h''))))"
  by pat_completeness auto
termination
  apply (relation "measure (\<lambda>(retries, a, h). nat (retries + 1 - int (retryCount (fst (h ! a)))))")
   apply simp
  apply (auto simp: call_handler_def split: prod.splits)
  done

declare task.simps [simp del]

text \<open>
  \<^verbatim>\<open>RateLimitedExecutor.run\<close> of an executor constructed with \<^verbatim>\<open>options.retries = retries\<close>,
  an integer: a rejection of \<^verbatim>\<open>await this.queue.add(task)\<close> rejects \<^verbatim>\<open>run\<close> before
  \<^verbatim>\<open>op.error\<close> is looked at.
\<close>

definition RateLimitedExecutor_run ::
  "int \<Rightarrow> 'a func \<Rightarrow> RunOptions option \<Rightarrow> 'a rl_heap \<Rightarrow>
     (thrown, 'a option) promise \<times> 'a rl_heap" where
  "RateLimitedExecutor_run retries f opts h =
     (let retryCodes = effective_retryCodes opts;
          op = \<lparr>func = f, retryCodes = retryCodes, result = None, error = None, retryCount = 0\<rparr>;
          a = length h
      in case PQueue_add (task retries a (h @ [(op, 0)])) of
           (Rejected t, h') \<Rightarrow> (Rejected t, h')
         | (Fulfilled u, h') \<Rightarrow>
             (case error (fst (h' ! a)) of
                Some e \<Rightarrow> (Rejected (Raw e), h')
              | None \<Rightarrow> (Fulfilled (result (fst (h' ! a))), h')))"

subsection \<open>The inline executor\<close>

text \<open>
  \<^verbatim>\<open>InlineExecutor.run(func) { return func(); }\<close>, with the number of invocations of
  \<^verbatim>\<open>func\<close> before and after.
\<close>

definition InlineExecutor_run ::
  "'a func \<Rightarrow> nat \<Rightarrow> (raised, (raised, 'a) promise) completion \<times> nat" where
  "InlineExecutor_run f n = (f n, Suc n)"

subsection \<open>The classifier as the spec words it\<close>

text \<open>
  The five locations probed by the classifier, in the order of the spec: the direct
  status, the direct code, the nested response status, the wrapped original's code and
  the wrapped original's nested response status.
\<close>

definition probes :: "failure \<Rightarrow> jsval list" where
  "probes err =
     [status err,
      code err,
      response_statusCode (context' err),
      (case original err of None \<Rightarrow> JUndefined | Some orig \<Rightarrow> code orig),
      (case original err of
         None \<Rightarrow> JUndefined
       | Some orig \<Rightarrow> response_statusCode (context' orig))]"

text \<open>
  The spec's rule: the first present value wins, and the code is undefined when none is
  present. A location is present when it does not read as \<^verbatim>\<open>undefined\<close>.
\<close>

definition first_present :: "jsval list \<Rightarrow> jsval" where
  "first_present vs =
     (case find (\<lambda>v. v \<noteq> JUndefined) vs of Some v \<Rightarrow> v | None \<Rightarrow> JUndefined)"

text \<open>The rule of a chain of \<^verbatim>\<open>||\<close>: the first truthy value, and the last value when none is.\<close>

definition first_truthy :: "jsval list \<Rightarrow> jsval" where
  "first_truthy vs = (case find truthy vs of Some v \<Rightarrow> v | None \<Rightarrow> last vs)"

subsection \<open>Sample inputs\<close>

text \<open>A \<^verbatim>\<open>func\<close> whose every invocation completes in the same way.\<close>

definition always :: "'c \<Rightarrow> nat \<Rightarrow> 'c" where
  "always c n = c"

text \<open>A \<^verbatim>\<open>func\<close> whose invocations complete as the list says, and as \<open>c\<close> after that.\<close>

definition script :: "'c list \<Rightarrow> 'c \<Rightarrow> nat \<Rightarrow> 'c" where
  "script cs c n = (if n < length cs then cs ! n else c)"

text \<open>The Operation records as the two \<^verbatim>\<open>run\<close> methods build them.\<close>

definition fresh_Operation :: "'a func \<Rightarrow> int list \<Rightarrow> 'a Operation" where
  "fresh_Operation f cs = \<lparr>func = f, retryCodes = cs, result = None, error = None\<rparr>"

definition fresh_RateLimitedOperation :: "'a func \<Rightarrow> int list \<Rightarrow> 'a RateLimitedOperation" where
  "fresh_RateLimitedOperation f cs =
     \<lparr>func = f, retryCodes = cs, result = None, error = None, retryCount = 0\<rparr>"

text \<open>An HTTP 429 with the code in \<^verbatim>\<open>status\<close>, and an HTTP 404 with the code where GCP puts it.\<close>

definition too_many_requests :: failure where
  "too_many_requests = Failure ''Too Many Requests'' (JNum 429) JUndefined None None True"

definition not_found :: failure where
  "not_found =
     Failure ''Not Found'' JUndefined JUndefined (Some (Context (Some (Response (JNum 404)))))
       None True"

text \<open>
  A DOMException \<^verbatim>\<open>AbortError\<close>: its \<^verbatim>\<open>code\<close> is 20 and is an accessor without a setter.
\<close>

definition abort_error :: failure where
  "abort_error = Failure ''The operation was aborted.'' JUndefined (JNum 20) None None False"


text \<open>A failure whose \<^verbatim>\<open>status\<close> is the number 0 and whose \<^verbatim>\<open>code\<close> is 429.\<close>

definition status_zero :: failure where
  "status_zero = Failure ''status 0'' (JNum 0) (JNum 429) None None True"

text \<open>A failure with none of the five locations.\<close>

definition bare :: failure where
  "bare = Failure ''boom'' JUndefined JUndefined None None True"

text \<open>
  A throttled queue that retries once after the first attempt and then rejects with a
  RetriesExhaustedError of its own around the last failure.
\<close>

definition sample_queue :: Queue where
  "sample_queue = \<lparr>queue_retries = 1, queue_giveUp = RetriesExhaustedError ''queue'' 1\<rparr>"

subsection \<open>The state of the result and error fields\<close>

text \<open>Neither field of the record is set; exactly one of the two is set.\<close>

definition neither_set :: "('a, 'z) Operation_scheme \<Rightarrow> bool" where
  "neither_set op = (result op = None \<and> error op = None)"

definition exactly_one_set :: "('a, 'z) Operation_scheme \<Rightarrow> bool" where
  "exactly_one_set op = ((result op = None) \<noteq> (error op = None))"

section \<open>Properties\<close>

subsection \<open>Facts about the handler\<close>

lemmas handler_unfold =
  handler_def handler_catch_def call_parseErrorCode_def assign_code_def rethrow_def Let_def

lemmas handler_splits =
  prod.splits completion.splits promise.splits raised.splits jsval.splits if_splits

lemma handler_success:
  "h ! a = (op, n) \<Longrightarrow> func op n = Returns (Fulfilled v) \<Longrightarrow>
   handler a h = (Fulfilled (), h[a := (op\<lparr>result := Some v\<rparr>, Suc n)])"
  by (simp add: handler_def)

lemma handler_retry:
  "a < length h \<Longrightarrow> h ! a = (op, n) \<Longrightarrow>
   func op n = Returns (Rejected (Object err)) \<or> func op n = Throws (Object err) \<Longrightarrow>
   array_includes (retryCodes op) (parseErrorCode err) \<Longrightarrow>
   handler a h = (Rejected (Raw err), h[a := (op, Suc n)])"
  by (auto simp: handler_unfold)

lemma handler_terminal:
  "a < length h \<Longrightarrow> h ! a = (op, n) \<Longrightarrow>
   func op n = Returns (Rejected (Object err)) \<or> func op n = Throws (Object err) \<Longrightarrow>
   \<not> array_includes (retryCodes op) (parseErrorCode err) \<Longrightarrow> code_writable err \<Longrightarrow>
   handler a h =
     (Fulfilled (), h[a := (op\<lparr>error := Some (set_code (parseErrorCode err) err)\<rparr>, Suc n)])"
  by (auto simp: handler_unfold)



lemma handler_length: "handler a h = (p, h') \<Longrightarrow> length h' = length h"
  by (auto simp: handler_unfold split: handler_splits)

lemma array_includes_DEFAULT:
  "array_includes DEFAULT_RETRY_CODES v = (v = JNum 429 \<or> v = JNum 409 \<or> v = JNum 503)"
  by (cases v) (auto simp: array_includes_def DEFAULT_RETRY_CODES_def)


lemma parseErrorCode_samples:
  "parseErrorCode too_many_requests = JNum 429"
  "parseErrorCode not_found = JNum 404"
  "parseErrorCode status_zero = JNum 429"
  "parseErrorCode bare = JUndefined"
  "parseErrorCode abort_error = JNum 20"
  by (simp_all add: parseErrorCode_def js_or_def response_statusCode_def
      too_many_requests_def not_found_def status_zero_def bare_def abort_error_def)

lemma code_writable_samples:
  "code_writable too_many_requests"
  "code_writable not_found"
  "\<not> code_writable abort_error"
  by (simp_all add: too_many_requests_def not_found_def abort_error_def)

subsection \<open>The classifier\<close>

text \<open>
  Claim C2, as the spec states it: the classifier returns the first value that is present
  among the five locations. It fails where a present value is falsy: with
  \<^verbatim>\<open>{ status: 0, code: 429 }\<close> the first present value is the status 0, and the
  classifier returns 429, which the default retry codes contain.
\<close>

theorem parseErrorCode_first_present_counterexample:
  "first_present (probes status_zero) = JNum 0 \<and>
   parseErrorCode status_zero = JNum 429 \<and>
   array_includes DEFAULT_RETRY_CODES (parseErrorCode status_zero)"
  by (simp add: parseErrorCode_samples array_includes_DEFAULT)
    (simp add: first_present_def probes_def status_zero_def)

text \<open>
  Claim C2, amended: the classifier returns the first truthy value among the five
  locations, in their order, and the value of the last location when none is truthy.
  When none of the five locations is present, the code is \<^verbatim>\<open>undefined\<close> and the failure
  is not retryable, whatever the retry codes \<open>cs\<close> are.
\<close>

theorem parseErrorCode_first_truthy:
  "parseErrorCode err = first_truthy (probes err) \<and>
   (list_all (\<lambda>v. v = JUndefined) (probes err) \<longrightarrow>
      parseErrorCode err = JUndefined \<and> \<not> array_includes cs (parseErrorCode err))"
  by (auto simp: parseErrorCode_def probes_def first_truthy_def js_or_def array_includes_def)

theorem parseErrorCode_first_truthy_witness:
  "list_all (\<lambda>v. v = JUndefined) (probes bare) \<and>
   parseErrorCode bare = first_truthy (probes bare) \<and>
   parseErrorCode bare = JUndefined \<and>
   array_includes DEFAULT_RETRY_CODES (parseErrorCode bare) = False"
proof -
  have none: "list_all (\<lambda>v. v = JUndefined) (probes bare)"
    by (simp add: probes_def bare_def response_statusCode_def)
  from none parseErrorCode_first_truthy [of bare DEFAULT_RETRY_CODES]
  show ?thesis by blast
qed

subsection \<open>The handler\<close>







subsection \<open>Facts about the queues and the two run methods\<close>

lemma Queue_attempts_first_ok:
  "hdl a h = (Fulfilled u, h') \<Longrightarrow> Queue_attempts k giveUp hdl a h = (Fulfilled u, h')"
  by (cases k) simp_all

lemma task_is_call_handler: "task retries a h = call_handler a h"
  by (subst task.simps) (simp add: call_handler_def split: prod.splits)

lemma PQueue_add_task: "PQueue_add (task retries a h) = handler a h"
  by (simp add: task_is_call_handler call_handler_def split: prod.splits)

lemma QueueExecutor_run_success:
  assumes "f 0 = Returns (Fulfilled v)"
  shows "QueueExecutor_run q f opts h =
    (Fulfilled (Some v),
     h @ [((fresh_Operation f (effective_retryCodes opts))\<lparr>result := Some v\<rparr>, Suc 0)])"
proof -
  let ?op = "fresh_Operation f (effective_retryCodes opts)"
  have "handler (length h) (h @ [(?op, 0)]) =
      (Fulfilled (), (h @ [(?op, 0)])[length h := (?op\<lparr>result := Some v\<rparr>, Suc 0)])"
    using assms by (intro handler_success) (simp_all add: fresh_Operation_def)
  then have "Queue_run q (length h) (h @ [(?op, 0)]) =
      (Fulfilled (), h @ [(?op\<lparr>result := Some v\<rparr>, Suc 0)])"
    by (simp add: Queue_run_def Queue_attempts_first_ok)
  then show ?thesis
    by (simp add: QueueExecutor_run_def fresh_Operation_def)
qed

lemma QueueExecutor_run_terminal:
  assumes "f 0 = Returns (Rejected (Object err)) \<or> f 0 = Throws (Object err)"
    and "\<not> array_includes (effective_retryCodes opts) (parseErrorCode err)"
    and "code_writable err"
  shows "QueueExecutor_run q f opts h =
    (Rejected (Raw (set_code (parseErrorCode err) err)),
     h @ [((fresh_Operation f (effective_retryCodes opts))
             \<lparr>error := Some (set_code (parseErrorCode err) err)\<rparr>, Suc 0)])"
proof -
  let ?op = "fresh_Operation f (effective_retryCodes opts)"
  have "handler (length h) (h @ [(?op, 0)]) =
      (Fulfilled (),
       (h @ [(?op, 0)])[length h :=
          (?op\<lparr>error := Some (set_code (parseErrorCode err) err)\<rparr>, Suc 0)])"
    using assms
    by (intro handler_terminal [where err = err]) (simp_all add: fresh_Operation_def)
  then have "Queue_run q (length h) (h @ [(?op, 0)]) =
      (Fulfilled (), h @ [(?op\<lparr>error := Some (set_code (parseErrorCode err) err)\<rparr>, Suc 0)])"
    by (simp add: Queue_run_def Queue_attempts_first_ok)
  then show ?thesis
    by (simp add: QueueExecutor_run_def fresh_Operation_def)
qed

lemma RateLimitedExecutor_run_success:
  assumes "f 0 = Returns (Fulfilled v)"
  shows "RateLimitedExecutor_run retries f opts h =
    (Fulfilled (Some v),
     h @ [((fresh_RateLimitedOperation f (effective_retryCodes opts))\<lparr>result := Some v\<rparr>,
           Suc 0)])"
proof -
  let ?op = "fresh_RateLimitedOperation f (effective_retryCodes opts)"
  have "handler (length h) (h @ [(?op, 0)]) =
      (Fulfilled (), (h @ [(?op, 0)])[length h := (?op\<lparr>result := Some v\<rparr>, Suc 0)])"
    using assms by (intro handler_success) (simp_all add: fresh_RateLimitedOperation_def)
  then show ?thesis
    by (simp add: RateLimitedExecutor_run_def PQueue_add_task fresh_RateLimitedOperation_def)
qed

lemma RateLimitedExecutor_run_terminal:
  assumes "f 0 = Returns (Rejected (Object err)) \<or> f 0 = Throws (Object err)"
    and "\<not> array_includes (effective_retryCodes opts) (parseErrorCode err)"
    and "code_writable err"
  shows "RateLimitedExecutor_run retries f opts h =
    (Rejected (Raw (set_code (parseErrorCode err) err)),
     h @ [((fresh_RateLimitedOperation f (effective_retryCodes opts))
             \<lparr>error := Some (set_code (parseErrorCode err) err)\<rparr>, Suc 0)])"
proof -
  let ?op = "fresh_RateLimitedOperation f (effective_retryCodes opts)"
  have "handler (length h) (h @ [(?op, 0)]) =
      (Fulfilled (),
       (h @ [(?op, 0)])[length h :=
          (?op\<lparr>error := Some (set_code (parseErrorCode err) err)\<rparr>, Suc 0)])"
    using assms
    by (intro handler_terminal [where err = err]) (simp_all add: fresh_RateLimitedOperation_def)
  then show ?thesis
    by (simp add: RateLimitedExecutor_run_def PQueue_add_task fresh_RateLimitedOperation_def)
qed

lemma RateLimitedExecutor_run_retryable:
  assumes "f 0 = Returns (Rejected (Object err)) \<or> f 0 = Throws (Object err)"
    and "array_includes (effective_retryCodes opts) (parseErrorCode err)"
  shows "RateLimitedExecutor_run retries f opts h =
    (Rejected (Raw err),
     h @ [(fresh_RateLimitedOperation f (effective_retryCodes opts), Suc 0)])"
proof -
  let ?op = "fresh_RateLimitedOperation f (effective_retryCodes opts)"
  have "handler (length h) (h @ [(?op, 0)]) =
      (Rejected (Raw err), (h @ [(?op, 0)])[length h := (?op, Suc 0)])"
    using assms by (intro handler_retry) (simp_all add: fresh_RateLimitedOperation_def)
  then show ?thesis
    by (simp add: RateLimitedExecutor_run_def PQueue_add_task fresh_RateLimitedOperation_def)
qed

lemma effective_retryCodes_simps:
  "effective_retryCodes None = DEFAULT_RETRY_CODES"
  "effective_retryCodes (Some (RunOptions None)) = DEFAULT_RETRY_CODES"
  "effective_retryCodes (Some (RunOptions (Some cs))) = cs"
  by (simp_all add: effective_retryCodes_def)

subsection \<open>The rate limited executor never retries\<close>

text \<open>
  Claim C1 says that an executor with ceiling \<open>R\<close> attempts an operation that always
  fails with a retryable code \<open>R + 1\<close> times and then rejects with the
  RetriesExhaustedError, and that an operation that fails fewer times and then succeeds
  resolves with its value. The code does neither. The \<^verbatim>\<open>try\<close> block of the task returns
  the promise of the \<^verbatim>\<open>async\<close> handler without awaiting it, so a rejection never reaches
  the \<^verbatim>\<open>catch\<close> block that counts the retries: the promise of \<^verbatim>\<open>queue.add(task)\<close> rejects
  with the failure and so does \<^verbatim>\<open>run\<close>. With ceiling 2 and a \<^verbatim>\<open>func\<close> that always rejects
  with \<^verbatim>\<open>{ status: 429 }\<close>, \<^verbatim>\<open>run\<close> rejects with that failure after one invocation, with
  \<^verbatim>\<open>retryCount\<close> still 0. With ceiling 5 and a \<^verbatim>\<open>func\<close> that rejects twice with it and then
  resolves with \<^verbatim>\<open>"ok"\<close>, \<^verbatim>\<open>run\<close> rejects in the same way after one invocation.
\<close>

theorem RateLimitedExecutor_run_single_attempt:
  "RateLimitedExecutor_run 2 (always (Returns (Rejected (Object too_many_requests))) :: string func) None [] =
     (Rejected (Raw too_many_requests),
      [(fresh_RateLimitedOperation (always (Returns (Rejected (Object too_many_requests))))
          DEFAULT_RETRY_CODES, Suc 0)]) \<and>
   RateLimitedExecutor_run 5
     (script [Returns (Rejected (Object too_many_requests)), Returns (Rejected (Object too_many_requests))]
        (Returns (Fulfilled ''ok''))) None [] =
     (Rejected (Raw too_many_requests),
      [(fresh_RateLimitedOperation
          (script [Returns (Rejected (Object too_many_requests)), Returns (Rejected (Object too_many_requests))]
             (Returns (Fulfilled ''ok''))) DEFAULT_RETRY_CODES, Suc 0)]) \<and>
   retryCount
     (fresh_RateLimitedOperation (always (Returns (Rejected (Object too_many_requests))) :: string func)
        DEFAULT_RETRY_CODES) = 0"
proof -
  have retryable: "array_includes (effective_retryCodes None) (parseErrorCode too_many_requests)"
    by (simp add: effective_retryCodes_simps parseErrorCode_samples array_includes_DEFAULT)
  have "RateLimitedExecutor_run 2 (always (Returns (Rejected (Object too_many_requests))) :: string func)
          None [] =
        (Rejected (Raw too_many_requests),
         [] @ [(fresh_RateLimitedOperation (always (Returns (Rejected (Object too_many_requests))))
                  (effective_retryCodes None), Suc 0)])"
    by (rule RateLimitedExecutor_run_retryable [OF _ retryable]) (simp add: always_def)
  moreover have "RateLimitedExecutor_run 5
        (script [Returns (Rejected (Object too_many_requests)), Returns (Rejected (Object too_many_requests))]
           (Returns (Fulfilled ''ok''))) None [] =
      (Rejected (Raw too_many_requests),
       [] @ [(fresh_RateLimitedOperation
                (script [Returns (Rejected (Object too_many_requests)), Returns (Rejected (Object too_many_requests))]
                   (Returns (Fulfilled ''ok''))) (effective_retryCodes None), Suc 0)])"
    by (rule RateLimitedExecutor_run_retryable [OF _ retryable]) (simp add: script_def)
  ultimately show ?thesis
    by (simp add: effective_retryCodes_simps fresh_RateLimitedOperation_def)
qed

subsection \<open>The throttled queue executor\<close>




subsection \<open>The retry codes of a run\<close>

lemma handler_retryCodes:
  "a < length h \<Longrightarrow> retryCodes (fst (snd (handler a h) ! a)) = retryCodes (fst (h ! a))"
  by (auto simp: handler_unfold split: handler_splits)

lemma Queue_attempts_retryCodes:
  "a < length h \<Longrightarrow>
   retryCodes (fst (snd (Queue_attempts k giveUp handler a h) ! a)) = retryCodes (fst (h ! a))"
proof (induction k arbitrary: h)
  case 0
  then show ?case
    using handler_retryCodes [of a h]
    by (auto split: prod.splits promise.splits)
next
  case (Suc k)
  show ?case
  proof (cases "handler a h")
    case (Pair p h')
    with Suc.prems have len: "a < length h'"
      by (simp add: handler_length)
    from Pair handler_retryCodes [OF Suc.prems]
    have same: "retryCodes (fst (h' ! a)) = retryCodes (fst (h ! a))"
      by simp
    show ?thesis
      using Pair same Suc.IH [OF len] by (cases p) simp_all
  qed
qed

lemma QueueExecutor_run_retryCodes:
  "retryCodes (fst (snd (QueueExecutor_run q f opts h) ! length h)) = effective_retryCodes opts"
proof -
  let ?op = "\<lparr>func = f, retryCodes = effective_retryCodes opts, result = None, error = None\<rparr>"
  have "retryCodes (fst (snd (Queue_attempts (queue_retries q) (queue_giveUp q) handler
      (length h) (h @ [(?op, 0)])) ! length h)) = retryCodes (fst ((h @ [(?op, 0)]) ! length h))"
    by (rule Queue_attempts_retryCodes) simp
  then show ?thesis
    by (cases "Queue_attempts (queue_retries q) (queue_giveUp q) handler
          (length h) (h @ [(?op, 0)])")
      (simp add: QueueExecutor_run_def Queue_run_def Let_def
        split: promise.splits option.splits)
qed

lemma RateLimitedExecutor_run_retryCodes:
  "retryCodes (fst (snd (RateLimitedExecutor_run retries f opts h) ! length h)) =
     effective_retryCodes opts"
proof -
  let ?op = "\<lparr>func = f, retryCodes = effective_retryCodes opts, result = None, error = None,
    retryCount = 0\<rparr>"
  have "retryCodes (fst (snd (handler (length h) (h @ [(?op, 0)])) ! length h)) =
      retryCodes (fst ((h @ [(?op, 0)]) ! length h))"
    by (rule handler_retryCodes) simp
  then show ?thesis
    by (cases "handler (length h) (h @ [(?op, 0)])")
      (simp add: RateLimitedExecutor_run_def PQueue_add_task Let_def
        split: promise.splits option.splits)
qed

text \<open>
  Claim C7: when the caller gives no options, or options without \<^verbatim>\<open>retryCodes\<close>, both
  queue-backed executors classify with the codes 429, 409 and 503: the run is the run
  with these codes given explicitly, a value is retryable exactly when it is one of the
  three numbers, and the Operation record that the run leaves in the heap carries them.
\<close>

theorem default_retryCodes_used:
  assumes "opts = None \<or> opts = Some (RunOptions None)"
  shows
    "effective_retryCodes opts = [429, 409, 503] \<and>
     set (effective_retryCodes opts) = {429, 409, 503} \<and>
     array_includes (effective_retryCodes opts) v = (v \<in> {JNum 429, JNum 409, JNum 503}) \<and>
     QueueExecutor_run q f opts h =
       QueueExecutor_run q f (Some (RunOptions (Some [429, 409, 503]))) h \<and>
     RateLimitedExecutor_run retries f opts g =
       RateLimitedExecutor_run retries f (Some (RunOptions (Some [429, 409, 503]))) g \<and>
     retryCodes (fst (snd (QueueExecutor_run q f opts h) ! length h)) = [429, 409, 503] \<and>
     retryCodes (fst (snd (RateLimitedExecutor_run retries f opts g) ! length g)) =
       [429, 409, 503]"
proof -
  from assms have codes: "effective_retryCodes opts = [429, 409, 503]"
    by (auto simp: effective_retryCodes_simps DEFAULT_RETRY_CODES_def)
  have same: "effective_retryCodes opts =
      effective_retryCodes (Some (RunOptions (Some [429, 409, 503])))"
    by (simp add: codes effective_retryCodes_simps)
  have "array_includes (effective_retryCodes opts) v = (v \<in> {JNum 429, JNum 409, JNum 503})"
    using codes array_includes_DEFAULT [of v] by (simp add: DEFAULT_RETRY_CODES_def)
  moreover have "QueueExecutor_run q f opts h =
      QueueExecutor_run q f (Some (RunOptions (Some [429, 409, 503]))) h"
    unfolding QueueExecutor_run_def same ..
  moreover have "RateLimitedExecutor_run retries f opts g =
      RateLimitedExecutor_run retries f (Some (RunOptions (Some [429, 409, 503]))) g"
    unfolding RateLimitedExecutor_run_def same ..
  ultimately show ?thesis
    using codes QueueExecutor_run_retryCodes [of q f opts h]
      RateLimitedExecutor_run_retryCodes [of retries f opts g]
    by simp
qed

theorem default_retryCodes_used_witness:
  "effective_retryCodes None = [429, 409, 503] \<and>
   array_includes (effective_retryCodes None) (JNum 503) \<and>
   array_includes (effective_retryCodes None) (JNum 404) = False \<and>
   QueueExecutor_run sample_queue (always (Returns (Rejected (Object not_found))) :: string func) None [] =
     QueueExecutor_run sample_queue (always (Returns (Rejected (Object not_found))))
       (Some (RunOptions (Some [429, 409, 503]))) [] \<and>
   RateLimitedExecutor_run 2 (always (Returns (Rejected (Object not_found))) :: string func)
       (Some (RunOptions None)) [] =
     RateLimitedExecutor_run 2 (always (Returns (Rejected (Object not_found))))
       (Some (RunOptions (Some [429, 409, 503]))) []"
proof -
  have none: "(None :: RunOptions option) = None \<or> None = Some (RunOptions None)"
    by simp
  have some: "Some (RunOptions None) = None \<or> Some (RunOptions None) = Some (RunOptions None)"
    by simp
  let ?f = "always (Returns (Rejected (Object not_found))) :: string func"
  have "effective_retryCodes None = [429, 409, 503] \<and>
      array_includes (effective_retryCodes None) (JNum 503) \<and>
      QueueExecutor_run sample_queue ?f None [] =
        QueueExecutor_run sample_queue ?f (Some (RunOptions (Some [429, 409, 503]))) []"
    using default_retryCodes_used [OF none, of "JNum 503" sample_queue ?f "[]" 2 "[]"]
    by blast
  moreover have "array_includes (effective_retryCodes None) (JNum 404) = False"
  proof -
    have "JNum 404 \<notin> {JNum 429, JNum 409, JNum 503}"
      by simp
    with default_retryCodes_used [OF none, of "JNum 404" sample_queue ?f "[]" 2 "[]"]
    show ?thesis by blast
  qed
  moreover have "RateLimitedExecutor_run 2 ?f (Some (RunOptions None)) [] =
      RateLimitedExecutor_run 2 ?f (Some (RunOptions (Some [429, 409, 503]))) []"
    using default_retryCodes_used [OF some, of "JNum 404" sample_queue ?f "[]" 2 "[]"]
    by blast
  ultimately show ?thesis
    by blast
qed




subsection \<open>The inline executor\<close>

text \<open>
  Claim C10: \<^verbatim>\<open>InlineExecutor.run(func)\<close> invokes \<^verbatim>\<open>func\<close> once and completes exactly as
  that invocation does: it returns the promise that \<^verbatim>\<open>func\<close> returned, fulfilled with the
  same value or rejected with the same failure, with no code attached and nothing queued
  or retried.
\<close>

theorem InlineExecutor_run_passes_through:
  "fst (InlineExecutor_run f n) = f n \<and> snd (InlineExecutor_run f n) = n + 1"
  by (simp add: InlineExecutor_run_def)

subsection \<open>The result and error fields\<close>

lemma handler_fields:
  assumes "a < length h" and "neither_set (fst (h ! a))"
  shows "case handler a h of
      (Fulfilled u, h') \<Rightarrow> exactly_one_set (fst (h' ! a))
    | (Rejected t, h') \<Rightarrow> neither_set (fst (h' ! a))"
  using assms
  by (cases "h ! a")
    (auto simp: handler_unfold neither_set_def exactly_one_set_def
      split: completion.splits promise.splits raised.splits jsval.splits)

lemma Queue_attempts_fields:
  assumes "a < length h" and "neither_set (fst (h ! a))"
  shows "case Queue_attempts k giveUp handler a h of
      (Fulfilled u, h') \<Rightarrow> exactly_one_set (fst (h' ! a))
    | (Rejected t, h') \<Rightarrow> neither_set (fst (h' ! a))"
  using assms
proof (induction k arbitrary: h)
  case 0
  from handler_fields [OF "0.prems"] show ?case
    by (auto split: prod.splits promise.splits)
next
  case (Suc k)
  show ?case
  proof (cases "handler a h")
    case (Pair p h')
    show ?thesis
    proof (cases p)
      case (Fulfilled u)
      with Pair handler_fields [OF Suc.prems] show ?thesis by simp
    next
      case (Rejected t)
      with Pair handler_fields [OF Suc.prems] have "neither_set (fst (h' ! a))"
        by simp
      moreover from Pair Suc.prems(1) have "a < length h'"
        by (simp add: handler_length)
      ultimately show ?thesis
        using Suc.IH [of h'] Pair Rejected by simp
    qed
  qed
qed

lemma QueueExecutor_run_fields:
  "case QueueExecutor_run q f opts g of
     (Fulfilled v, g') \<Rightarrow>
       v \<noteq> None \<and> result (fst (g' ! length g)) = v \<and> error (fst (g' ! length g)) = None
   | (Rejected t, g') \<Rightarrow>
       (case error (fst (g' ! length g)) of
          Some e \<Rightarrow> t = Raw e \<and> result (fst (g' ! length g)) = None
        | None \<Rightarrow> result (fst (g' ! length g)) = None)"
proof -
  let ?op = "\<lparr>func = f, retryCodes = effective_retryCodes opts, result = None, error = None\<rparr>"
  have "case Queue_attempts (queue_retries q) (queue_giveUp q) handler (length g) (g @ [(?op, 0)]) of
      (Fulfilled u, h') \<Rightarrow> exactly_one_set (fst (h' ! length g))
    | (Rejected t, h') \<Rightarrow> neither_set (fst (h' ! length g))"
    by (rule Queue_attempts_fields) (simp_all add: neither_set_def)
  then show ?thesis
    by (auto simp: QueueExecutor_run_def Queue_run_def neither_set_def exactly_one_set_def
        split: prod.splits promise.splits option.splits)
qed

lemma RateLimitedExecutor_run_fields:
  "case RateLimitedExecutor_run retries f opts g of
     (Fulfilled v, g') \<Rightarrow>
       v \<noteq> None \<and> result (fst (g' ! length g)) = v \<and> error (fst (g' ! length g)) = None
   | (Rejected t, g') \<Rightarrow>
       (case error (fst (g' ! length g)) of
          Some e \<Rightarrow> t = Raw e \<and> result (fst (g' ! length g)) = None
        | None \<Rightarrow> result (fst (g' ! length g)) = None)"
proof -
  let ?op = "\<lparr>func = f, retryCodes = effective_retryCodes opts, result = None, error = None,
    retryCount = 0\<rparr>"
  have "case handler (length g) (g @ [(?op, 0)]) of
      (Fulfilled u, h') \<Rightarrow> exactly_one_set (fst (h' ! length g))
    | (Rejected t, h') \<Rightarrow> neither_set (fst (h' ! length g))"
    by (rule handler_fields) (simp_all add: neither_set_def)
  then show ?thesis
    by (auto simp: RateLimitedExecutor_run_def PQueue_add_task neither_set_def
        exactly_one_set_def split: prod.splits promise.splits option.splits)
qed

lemma runs_of_always_too_many_requests:
  "QueueExecutor_run sample_queue (always (Returns (Rejected (Object too_many_requests)))) None [] =
     (Rejected (RetriesExhaustedError ''queue'' 1 (Raw too_many_requests)),
      [(fresh_Operation (always (Returns (Rejected (Object too_many_requests)))) DEFAULT_RETRY_CODES,
        Suc (Suc 0))])"
  "RateLimitedExecutor_run 2 (always (Returns (Rejected (Object too_many_requests)))) None [] =
     (Rejected (Raw too_many_requests),
      [(fresh_RateLimitedOperation (always (Returns (Rejected (Object too_many_requests))))
          DEFAULT_RETRY_CODES, Suc 0)])"
  by (simp_all add: QueueExecutor_run_def RateLimitedExecutor_run_def PQueue_add_task
      Queue_run_def sample_queue_def handler_unfold always_def
      effective_retryCodes_simps parseErrorCode_samples array_includes_DEFAULT
      fresh_Operation_def fresh_RateLimitedOperation_def)

text \<open>
  Claim C6, as the spec states it: once \<^verbatim>\<open>run\<close> has settled, exactly one of \<^verbatim>\<open>result\<close> and
  \<^verbatim>\<open>error\<close> is set. It fails whenever \<^verbatim>\<open>run\<close> rejects because the promise of the queue
  rejected: the handler raises a retryable failure again without storing it. With a
  \<^verbatim>\<open>func\<close> that always rejects with \<^verbatim>\<open>{ status: 429 }\<close>, the throttled queue gives up after
  its last attempt and the rate limited executor rejects after the first, and in both
  records neither field is set.
\<close>

theorem neither_field_set_when_queue_rejects_counterexample:
  "fst (QueueExecutor_run sample_queue
          (always (Returns (Rejected (Object too_many_requests))) :: string func) None []) =
     Rejected (RetriesExhaustedError ''queue'' 1 (Raw too_many_requests)) \<and>
   result (fst (snd (QueueExecutor_run sample_queue
          (always (Returns (Rejected (Object too_many_requests))) :: string func) None []) ! 0)) = None \<and>
   error (fst (snd (QueueExecutor_run sample_queue
          (always (Returns (Rejected (Object too_many_requests))) :: string func) None []) ! 0)) = None \<and>
   fst (RateLimitedExecutor_run 2
          (always (Returns (Rejected (Object too_many_requests))) :: string func) None []) =
     Rejected (Raw too_many_requests) \<and>
   result (fst (snd (RateLimitedExecutor_run 2
          (always (Returns (Rejected (Object too_many_requests))) :: string func) None []) ! 0)) = None \<and>
   error (fst (snd (RateLimitedExecutor_run 2
          (always (Returns (Rejected (Object too_many_requests))) :: string func) None []) ! 0)) = None"
  by (simp add: runs_of_always_too_many_requests)
    (simp add: fresh_Operation_def fresh_RateLimitedOperation_def)

text \<open>
  Claim C6, amended. A new Operation has neither field set. A run of the handler on an
  Operation with neither field set leaves exactly one of them set when it returns
  normally, and neither when it raises, so neither is set until the handler has
  returned normally. When \<^verbatim>\<open>run\<close> of either queue-backed executor resolves, it resolves
  with the \<^verbatim>\<open>result\<close> field, which is set, and \<^verbatim>\<open>error\<close> is not. When \<^verbatim>\<open>run\<close> rejects and the
  \<^verbatim>\<open>error\<close> field is set, it rejects with that field and \<^verbatim>\<open>result\<close> is not set; when it
  rejects and \<^verbatim>\<open>error\<close> is not set (the promise of the queue rejected), \<^verbatim>\<open>result\<close> is not set
  either.
\<close>

theorem result_error_fields_when_settled:
  "(a < length h \<and> neither_set (fst (h ! a)) \<longrightarrow>
      (case handler a h of
         (Fulfilled u, h') \<Rightarrow> exactly_one_set (fst (h' ! a))
       | (Rejected t, h') \<Rightarrow> neither_set (fst (h' ! a)))) \<and>
   neither_set (fresh_Operation f cs) \<and>
   neither_set (fresh_RateLimitedOperation f cs) \<and>
   (case QueueExecutor_run q f opts g of
      (Fulfilled v, g') \<Rightarrow>
        v \<noteq> None \<and> result (fst (g' ! length g)) = v \<and> error (fst (g' ! length g)) = None
    | (Rejected t, g') \<Rightarrow>
        (case error (fst (g' ! length g)) of
           Some e \<Rightarrow> t = Raw e \<and> result (fst (g' ! length g)) = None
         | None \<Rightarrow> result (fst (g' ! length g)) = None)) \<and>
   (case RateLimitedExecutor_run retries f opts r of
      (Fulfilled v, r') \<Rightarrow>
        v \<noteq> None \<and> result (fst (r' ! length r)) = v \<and> error (fst (r' ! length r)) = None
    | (Rejected t, r') \<Rightarrow>
        (case error (fst (r' ! length r)) of
           Some e \<Rightarrow> t = Raw e \<and> result (fst (r' ! length r)) = None
         | None \<Rightarrow> result (fst (r' ! length r)) = None))"
proof (intro conjI impI)
  assume "a < length h \<and> neither_set (fst (h ! a))"
  then show "case handler a h of
      (Fulfilled u, h') \<Rightarrow> exactly_one_set (fst (h' ! a))
    | (Rejected t, h') \<Rightarrow> neither_set (fst (h' ! a))"
    by (simp add: handler_fields)
next
  show "neither_set (fresh_Operation f cs)"
    by (simp add: neither_set_def fresh_Operation_def)
next
  show "neither_set (fresh_RateLimitedOperation f cs)"
    by (simp add: neither_set_def fresh_RateLimitedOperation_def)
next
  show "case QueueExecutor_run q f opts g of
      (Fulfilled v, g') \<Rightarrow>
        v \<noteq> None \<and> result (fst (g' ! length g)) = v \<and> error (fst (g' ! length g)) = None
    | (Rejected t, g') \<Rightarrow>
        (case error (fst (g' ! length g)) of
           Some e \<Rightarrow> t = Raw e \<and> result (fst (g' ! length g)) = None
         | None \<Rightarrow> result (fst (g' ! length g)) = None)"
    by (rule QueueExecutor_run_fields)
next
  show "case RateLimitedExecutor_run retries f opts r of
      (Fulfilled v, r') \<Rightarrow>
        v \<noteq> None \<and> result (fst (r' ! length r)) = v \<and> error (fst (r' ! length r)) = None
    | (Rejected t, r') \<Rightarrow>
        (case error (fst (r' ! length r)) of
           Some e \<Rightarrow> t = Raw e \<and> result (fst (r' ! length r)) = None
         | None \<Rightarrow> result (fst (r' ! length r)) = None)"
    by (rule RateLimitedExecutor_run_fields)
qed

theorem result_error_fields_when_settled_witness:
  "neither_set (fst ([(fresh_Operation (always (Throws (Object not_found)) :: string func)
                        DEFAULT_RETRY_CODES, 0 :: nat)] ! 0)) \<and>
   fst (handler 0 [(fresh_Operation (always (Throws (Object not_found)) :: string func)
                      DEFAULT_RETRY_CODES, 0)]) = Fulfilled () \<and>
   exactly_one_set
     (fst (snd (handler 0 [(fresh_Operation (always (Throws (Object not_found)) :: string func)
                              DEFAULT_RETRY_CODES, 0)]) ! 0)) \<and>
   fst (QueueExecutor_run sample_queue (always (Throws (Object not_found)) :: string func) None []) =
     Rejected (Raw (Failure ''Not Found'' JUndefined (JNum 404)
        (Some (Context (Some (Response (JNum 404))))) None True)) \<and>
   error (fst (snd (QueueExecutor_run sample_queue
                      (always (Throws (Object not_found)) :: string func) None []) ! 0)) =
     Some (Failure ''Not Found'' JUndefined (JNum 404)
        (Some (Context (Some (Response (JNum 404))))) None True) \<and>
   result (fst (snd (QueueExecutor_run sample_queue
                       (always (Throws (Object not_found)) :: string func) None []) ! 0)) = None \<and>
   fst (RateLimitedExecutor_run 2 (always (Throws (Object not_found)) :: string func) None []) =
     Rejected (Raw (Failure ''Not Found'' JUndefined (JNum 404)
        (Some (Context (Some (Response (JNum 404))))) None True)) \<and>
   error (fst (snd (RateLimitedExecutor_run 2
                      (always (Throws (Object not_found)) :: string func) None []) ! 0)) =
     Some (Failure ''Not Found'' JUndefined (JNum 404)
        (Some (Context (Some (Response (JNum 404))))) None True) \<and>
   result (fst (snd (RateLimitedExecutor_run 2
                       (always (Throws (Object not_found)) :: string func) None []) ! 0)) = None"
proof -
  let ?f = "always (Throws (Object not_found)) :: string func"
  let ?op = "fresh_Operation ?f DEFAULT_RETRY_CODES"
  have fails: "?f 0 = Returns (Rejected (Object not_found)) \<or> ?f 0 = Throws (Object not_found)"
    by (simp add: always_def)
  have terminal: "\<not> array_includes (effective_retryCodes None) (parseErrorCode not_found)"
    by (simp add: effective_retryCodes_simps parseErrorCode_samples array_includes_DEFAULT)
  have pre: "0 < length [(?op, 0 :: nat)] \<and> neither_set (fst ([(?op, 0 :: nat)] ! 0))"
    by (simp add: neither_set_def fresh_Operation_def)
  have step: "handler 0 [(?op, 0)] =
      (Fulfilled (),
       [(?op, 0)][0 := (?op\<lparr>error := Some (set_code (parseErrorCode not_found) not_found)\<rparr>,
                        Suc 0)])"
    by (rule handler_terminal [where err = not_found])
      (simp_all add: fresh_Operation_def always_def parseErrorCode_samples
        code_writable_samples array_includes_DEFAULT)
  have runQ: "QueueExecutor_run sample_queue ?f None [] =
      (Rejected (Raw (set_code (parseErrorCode not_found) not_found)),
       [] @ [((fresh_Operation ?f (effective_retryCodes None))
                \<lparr>error := Some (set_code (parseErrorCode not_found) not_found)\<rparr>, Suc 0)])"
    using fails terminal code_writable_samples(2) by (rule QueueExecutor_run_terminal)
  have runR: "RateLimitedExecutor_run 2 ?f None [] =
      (Rejected (Raw (set_code (parseErrorCode not_found) not_found)),
       [] @ [((fresh_RateLimitedOperation ?f (effective_retryCodes None))
                \<lparr>error := Some (set_code (parseErrorCode not_found) not_found)\<rparr>, Suc 0)])"
    using fails terminal code_writable_samples(2) by (rule RateLimitedExecutor_run_terminal)
  from result_error_fields_when_settled
    [where a = 0 and h = "[(?op, 0)]" and f = ?f and cs = DEFAULT_RETRY_CODES
       and q = sample_queue and opts = None and g = "[]" and retries = 2 and r = "[]"]
  have "exactly_one_set (fst (snd (handler 0 [(?op, 0)]) ! 0)) \<and>
      (case error (fst (snd (QueueExecutor_run sample_queue ?f None []) ! 0)) of
         Some e \<Rightarrow> result (fst (snd (QueueExecutor_run sample_queue ?f None []) ! 0)) = None
       | None \<Rightarrow> True) \<and>
      (case error (fst (snd (RateLimitedExecutor_run 2 ?f None []) ! 0)) of
         Some e \<Rightarrow> result (fst (snd (RateLimitedExecutor_run 2 ?f None []) ! 0)) = None
       | None \<Rightarrow> True)"
    using pre by (simp add: step runQ runR split: option.splits)
  then show ?thesis
    using pre
    by (simp add: step runQ runR parseErrorCode_samples set_code_def)
      (simp add: not_found_def)
qed

subsection \<open>Independence of runs\<close>

lemma handler_append:
  "a < length g \<Longrightarrow>
   handler (length h + a) (h @ g) = (case handler a g of (p, g') \<Rightarrow> (p, h @ g'))"
  by (auto simp: handler_unfold nth_append list_update_append split: handler_splits)

lemma Queue_attempts_append:
  "a < length g \<Longrightarrow>
   Queue_attempts k giveUp handler (length h + a) (h @ g) =
     (case Queue_attempts k giveUp handler a g of (p, g') \<Rightarrow> (p, h @ g'))"
proof (induction k arbitrary: g)
  case 0
  then show ?case
    by (simp add: handler_append split: prod.splits promise.splits)
next
  case (Suc k)
  show ?case
  proof (cases "handler a g")
    case (Pair p g')
    with Suc.prems have len: "a < length g'"
      by (simp add: handler_length)
    show ?thesis
      using Pair Suc.prems Suc.IH [OF len]
      by (cases p) (simp_all add: handler_append)
  qed
qed

lemma Queue_attempts_length:
  "Queue_attempts k giveUp handler a h = (p, h') \<Longrightarrow> length h' = length h"
proof (induction k arbitrary: h)
  case 0
  then show ?case
    by (auto simp: handler_length split: prod.splits promise.splits)
next
  case (Suc k)
  then show ?case
    by (auto simp: handler_length split: prod.splits promise.splits)
qed

lemma QueueExecutor_run_append:
  "QueueExecutor_run q f opts h =
     (case QueueExecutor_run q f opts [] of (p, c) \<Rightarrow> (p, h @ c))"
proof -
  let ?op = "\<lparr>func = f, retryCodes = effective_retryCodes opts, result = None, error = None\<rparr>"
  obtain p c where solo: "Queue_run q 0 [(?op, 0)] = (p, c)"
    by (cases "Queue_run q 0 [(?op, 0)]")
  then have "length c = 1"
    by (auto simp: Queue_run_def dest: Queue_attempts_length)
  then obtain x where c: "c = [x]"
    by (cases c) simp_all
  have "Queue_run q (length h + 0) (h @ [(?op, 0)]) = (p, h @ c)"
    unfolding Queue_run_def
    using solo by (subst Queue_attempts_append) (simp_all add: Queue_run_def)
  then show ?thesis
    using solo c
    by (simp add: QueueExecutor_run_def split: promise.splits option.splits)
qed

lemma RateLimitedExecutor_run_append:
  "RateLimitedExecutor_run retries f opts h =
     (case RateLimitedExecutor_run retries f opts [] of (p, c) \<Rightarrow> (p, h @ c))"
proof -
  let ?op = "\<lparr>func = f, retryCodes = effective_retryCodes opts, result = None, error = None,
    retryCount = 0\<rparr>"
  obtain p c where solo: "handler 0 [(?op, 0)] = (p, c)"
    by (cases "handler 0 [(?op, 0)]")
  then have "length c = 1"
    by (auto dest: handler_length)
  then obtain x where c: "c = [x]"
    by (cases c) simp_all
  have "handler (length h + 0) (h @ [(?op, 0)]) = (p, h @ c)"
    using solo by (subst handler_append) simp_all
  then show ?thesis
    using solo c
    by (simp add: RateLimitedExecutor_run_def PQueue_add_task split: promise.splits option.splits)
qed

lemma QueueExecutor_run_heap:
  "fst (QueueExecutor_run q f opts h) = fst (QueueExecutor_run q f opts [])"
  "snd (QueueExecutor_run q f opts h) = h @ snd (QueueExecutor_run q f opts [])"
  using QueueExecutor_run_append [of q f opts h] by (simp_all add: split_beta)

lemma RateLimitedExecutor_run_heap:
  "fst (RateLimitedExecutor_run retries f opts h) = fst (RateLimitedExecutor_run retries f opts [])"
  "snd (RateLimitedExecutor_run retries f opts h) =
     h @ snd (RateLimitedExecutor_run retries f opts [])"
  using RateLimitedExecutor_run_append [of retries f opts h] by (simp_all add: split_beta)

lemma QueueExecutor_run_one_cell: "length (snd (QueueExecutor_run q f opts [])) = 1"
  by (auto simp: QueueExecutor_run_def Queue_run_def
      split: prod.splits promise.splits option.splits dest: Queue_attempts_length)

lemma RateLimitedExecutor_run_one_cell:
  "length (snd (RateLimitedExecutor_run retries f opts [])) = 1"
  by (auto simp: RateLimitedExecutor_run_def PQueue_add_task
      split: prod.splits promise.splits option.splits dest: handler_length)

lemma handler_other:
  "b \<noteq> a \<Longrightarrow> snd (handler a h) ! b = h ! b"
  by (auto simp: handler_unfold split: handler_splits)

lemma handler_own:
  "a < length h \<Longrightarrow> snd (handler a h) = h[a := snd (handler a h) ! a]"
  by (auto simp: handler_unfold split: handler_splits)

lemma handler_local:
  "a < length h \<Longrightarrow> a < length h' \<Longrightarrow> h ! a = h' ! a \<Longrightarrow>
   fst (handler a h) = fst (handler a h') \<and> snd (handler a h) ! a = snd (handler a h') ! a"
  by (auto simp: handler_unfold split: handler_splits)

lemma handler_commute:
  assumes "a < length s" and "b < length s" and "a \<noteq> b"
  shows "snd (handler a (snd (handler b s))) = snd (handler b (snd (handler a s)))"
proof -
  let ?sa = "snd (handler a s)" and ?sb = "snd (handler b s)"
  have la: "length ?sa = length s" and lb: "length ?sb = length s"
    by (cases "handler a s", simp add: handler_length)
      (cases "handler b s", simp add: handler_length)
  have a_in_sb: "?sb ! a = s ! a" and b_in_sa: "?sa ! b = s ! b"
    using assms(3) by (simp_all add: handler_other)
  have sa: "?sa = s[a := ?sa ! a]"
    using assms(1) by (rule handler_own)
  have sb: "?sb = s[b := ?sb ! b]"
    using assms(2) by (rule handler_own)
  have "snd (handler a ?sb) = ?sb[a := snd (handler a ?sb) ! a]"
    using assms(1) lb by (intro handler_own) simp
  moreover have "snd (handler a ?sb) ! a = ?sa ! a"
    using handler_local [of a ?sb s] assms(1) lb a_in_sb by simp
  ultimately have "snd (handler a ?sb) = ?sb[a := ?sa ! a]"
    by simp
  with sb have left: "snd (handler a ?sb) = s[b := ?sb ! b, a := ?sa ! a]"
    by metis
  have "snd (handler b ?sa) = ?sa[b := snd (handler b ?sa) ! b]"
    using assms(2) la by (intro handler_own) simp
  moreover have "snd (handler b ?sa) ! b = ?sb ! b"
    using handler_local [of b ?sa s] assms(2) la b_in_sa by simp
  ultimately have "snd (handler b ?sa) = ?sa[b := ?sb ! b]"
    by simp
  with sa have right: "snd (handler b ?sa) = s[a := ?sa ! a, b := ?sb ! b]"
    by metis
  from left right assms(3) show ?thesis
    by (simp add: list_update_swap)
qed

text \<open>
  Claim C8: two calls of \<^verbatim>\<open>run\<close> on the same executor work on two Operation records of
  their own. Whatever the heap \<open>h\<close> holds, the first run resolves or rejects as it does on
  the empty heap and adds one record; the second run, started on the heap that the first
  one left, resolves or rejects as it does on the empty heap, and the heap ends as \<open>h\<close>
  followed by the record of the first run alone and the record of the second run alone.
  For the attempts of two operations that are in flight together: a run of the handler on
  the record at \<open>a\<close> leaves the record at every other address \<open>b\<close> as it was, the handler
  on \<open>b\<close> then does what it would have done before, and the two runs of the handler
  can be taken in either order.
\<close>

theorem runs_do_not_share_state:
  "QueueExecutor_run q f2 opts2 (snd (QueueExecutor_run q f1 opts1 h)) =
     (fst (QueueExecutor_run q f2 opts2 []),
      h @ snd (QueueExecutor_run q f1 opts1 []) @ snd (QueueExecutor_run q f2 opts2 [])) \<and>
   fst (QueueExecutor_run q f1 opts1 h) = fst (QueueExecutor_run q f1 opts1 []) \<and>
   length (snd (QueueExecutor_run q f1 opts1 [])) = 1 \<and>
   RateLimitedExecutor_run retries f2 opts2 (snd (RateLimitedExecutor_run retries f1 opts1 g)) =
     (fst (RateLimitedExecutor_run retries f2 opts2 []),
      g @ snd (RateLimitedExecutor_run retries f1 opts1 []) @
        snd (RateLimitedExecutor_run retries f2 opts2 [])) \<and>
   fst (RateLimitedExecutor_run retries f1 opts1 g) =
     fst (RateLimitedExecutor_run retries f1 opts1 []) \<and>
   length (snd (RateLimitedExecutor_run retries f1 opts1 [])) = 1 \<and>
   (a < length s \<and> b < length s \<and> a \<noteq> b \<longrightarrow>
      snd (handler a s) ! b = s ! b \<and>
      fst (handler b (snd (handler a s))) = fst (handler b s) \<and>
      snd (handler b (snd (handler a s))) ! b = snd (handler b s) ! b \<and>
      snd (handler a (snd (handler b s))) = snd (handler b (snd (handler a s))))"
proof (intro conjI impI)
  show "QueueExecutor_run q f2 opts2 (snd (QueueExecutor_run q f1 opts1 h)) =
     (fst (QueueExecutor_run q f2 opts2 []),
      h @ snd (QueueExecutor_run q f1 opts1 []) @ snd (QueueExecutor_run q f2 opts2 []))"
    using QueueExecutor_run_heap [of q f2 opts2 "snd (QueueExecutor_run q f1 opts1 h)"]
      QueueExecutor_run_heap(2) [of q f1 opts1 h]
    by (simp add: prod_eq_iff)
  show "fst (QueueExecutor_run q f1 opts1 h) = fst (QueueExecutor_run q f1 opts1 [])"
    by (rule QueueExecutor_run_heap)
  show "length (snd (QueueExecutor_run q f1 opts1 [])) = 1"
    by (rule QueueExecutor_run_one_cell)
  show "RateLimitedExecutor_run retries f2 opts2
      (snd (RateLimitedExecutor_run retries f1 opts1 g)) =
     (fst (RateLimitedExecutor_run retries f2 opts2 []),
      g @ snd (RateLimitedExecutor_run retries f1 opts1 []) @
        snd (RateLimitedExecutor_run retries f2 opts2 []))"
    using RateLimitedExecutor_run_heap
        [of retries f2 opts2 "snd (RateLimitedExecutor_run retries f1 opts1 g)"]
      RateLimitedExecutor_run_heap(2) [of retries f1 opts1 g]
    by (simp add: prod_eq_iff)
  show "fst (RateLimitedExecutor_run retries f1 opts1 g) =
      fst (RateLimitedExecutor_run retries f1 opts1 [])"
    by (rule RateLimitedExecutor_run_heap)
  show "length (snd (RateLimitedExecutor_run retries f1 opts1 [])) = 1"
    by (rule RateLimitedExecutor_run_one_cell)
next
  assume ab: "a < length s \<and> b < length s \<and> a \<noteq> b"
  then show other: "snd (handler a s) ! b = s ! b"
    by (simp add: handler_other)
  have len: "length (snd (handler a s)) = length s"
    by (cases "handler a s") (simp add: handler_length)
  from handler_local [of b "snd (handler a s)" s] ab len other
  show "fst (handler b (snd (handler a s))) = fst (handler b s)"
    and "snd (handler b (snd (handler a s))) ! b = snd (handler b s) ! b"
    by simp_all
  from ab show "snd (handler a (snd (handler b s))) = snd (handler b (snd (handler a s)))"
    by (simp add: handler_commute)
qed

theorem runs_do_not_share_state_witness:
  "QueueExecutor_run sample_queue (always (Returns (Rejected (Object not_found))) :: string func) None
     (snd (QueueExecutor_run sample_queue (always (Returns (Fulfilled ''ok''))) None [])) =
     (Rejected (Raw (Failure ''Not Found'' JUndefined (JNum 404)
        (Some (Context (Some (Response (JNum 404))))) None True)),
      [((fresh_Operation (always (Returns (Fulfilled ''ok''))) DEFAULT_RETRY_CODES)
          \<lparr>result := Some ''ok''\<rparr>, Suc 0),
       ((fresh_Operation (always (Returns (Rejected (Object not_found)))) DEFAULT_RETRY_CODES)
          \<lparr>error := Some (Failure ''Not Found'' JUndefined (JNum 404)
        (Some (Context (Some (Response (JNum 404))))) None True)\<rparr>, Suc 0)]) \<and>
   snd (handler 0
          [(fresh_Operation (always (Returns (Fulfilled ''ok''))) DEFAULT_RETRY_CODES, 0),
           (fresh_Operation (always (Returns (Rejected (Object not_found)))) DEFAULT_RETRY_CODES, 0)]) ! 1 =
     (fresh_Operation (always (Returns (Rejected (Object not_found)))) DEFAULT_RETRY_CODES, 0) \<and>
   snd (handler 0 (snd (handler 1
          [(fresh_Operation (always (Returns (Fulfilled ''ok''))) DEFAULT_RETRY_CODES, 0),
           (fresh_Operation (always (Returns (Rejected (Object not_found)))) DEFAULT_RETRY_CODES, 0)]))) =
     snd (handler 1 (snd (handler 0
          [(fresh_Operation (always (Returns (Fulfilled ''ok''))) DEFAULT_RETRY_CODES, 0),
           (fresh_Operation (always (Returns (Rejected (Object not_found)))) DEFAULT_RETRY_CODES, 0)])))"
proof -
  let ?fa = "always (Returns (Fulfilled ''ok'')) :: string func"
  let ?fb = "always (Returns (Rejected (Object not_found))) :: string func"
  let ?s = "[(fresh_Operation ?fa DEFAULT_RETRY_CODES, 0 :: nat),
             (fresh_Operation ?fb DEFAULT_RETRY_CODES, 0)]"
  have pre: "0 < length ?s \<and> 1 < length ?s \<and> (0 :: nat) \<noteq> 1"
    by simp
  have runA: "QueueExecutor_run sample_queue ?fa None [] =
      (Fulfilled (Some ''ok''),
       [] @ [((fresh_Operation ?fa (effective_retryCodes None))\<lparr>result := Some ''ok''\<rparr>, Suc 0)])"
    by (rule QueueExecutor_run_success) (simp add: always_def)
  have runB: "QueueExecutor_run sample_queue ?fb None [] =
      (Rejected (Raw (set_code (parseErrorCode not_found) not_found)),
       [] @ [((fresh_Operation ?fb (effective_retryCodes None))
                \<lparr>error := Some (set_code (parseErrorCode not_found) not_found)\<rparr>, Suc 0)])"
    by (rule QueueExecutor_run_terminal [where err = not_found])
      (simp_all add: always_def effective_retryCodes_simps parseErrorCode_samples
        code_writable_samples array_includes_DEFAULT)
  from runs_do_not_share_state
    [where q = sample_queue and ?f1.0 = ?fa and ?f2.0 = ?fb and ?opts1.0 = None
       and ?opts2.0 = None and h = "[]" and a = 0 and b = 1 and s = ?s
       and retries = 2 and g = "[]"] pre
  show ?thesis
    by (simp add: runA runB effective_retryCodes_simps parseErrorCode_samples set_code_def)
      (simp add: not_found_def)
qed

end
